theory Spec2Isabelle
  imports Main "HOL-Library.Sublist"
begin

section \<open>The voice announcement script\<close>

text \<open>
  A shallow embedding of \<^verbatim>\<open>announce_completion.py\<close>: the function
  \<^verbatim>\<open>announce_completion(message)\<close> and the script's entry point. The script talks to
  its surroundings in three ways: it asks \<^verbatim>\<open>platform.system()\<close> for the platform, it
  runs external commands with \<^verbatim>\<open>subprocess.run\<close>, and it prints lines. All three are
  answered by an environment that is a parameter of the model: the platform, the outcome
  of every command, and whether a line can be written to standard output. The state
  records the lines that were written and a log of every command that was requested.
\<close>

subsection \<open>Exceptions\<close>

text \<open>
  The exceptions the script's \<^verbatim>\<open>except\<close> clauses tell apart.
  \<^verbatim>\<open>CalledProcessError\<close> carries the exit status and the command as it was handed to
  \<^verbatim>\<open>subprocess.run\<close>; \<open>OtherError\<close> stands for any further subclass of
  \<^verbatim>\<open>Exception\<close> (a \<^verbatim>\<open>PermissionError\<close>, a \<^verbatim>\<open>ValueError\<close> for a NUL byte
  in an argument, the \<^verbatim>\<open>UnicodeEncodeError\<close> or \<^verbatim>\<open>OSError\<close> of a failing
  \<^verbatim>\<open>print\<close>, ...) and carries its text. Interrupts delivered from outside
  (\<^verbatim>\<open>KeyboardInterrupt\<close>) are not errors of a call and are not modelled: execution is
  synchronous.
\<close>

datatype exn =
    CalledProcessError int "string list"
  | FileNotFoundError
  | OtherError string

text \<open>The class tests of the three \<^verbatim>\<open>except\<close> clauses.\<close>

fun isinstance_CalledProcessError :: "exn \<Rightarrow> bool" where
  "isinstance_CalledProcessError (CalledProcessError rc cmd) = True"
| "isinstance_CalledProcessError ex = False"

fun isinstance_FileNotFoundError :: "exn \<Rightarrow> bool" where
  "isinstance_FileNotFoundError FileNotFoundError = True"
| "isinstance_FileNotFoundError ex = False"

fun isinstance_Exception :: "exn \<Rightarrow> bool" where
  "isinstance_Exception ex = True"

subsection \<open>The environment\<close>

text \<open>
  What the operating system does with a request to run a command: the process runs and
  exits with a status; or the executable does not exist, which \<^verbatim>\<open>subprocess\<close> reports
  as \<^verbatim>\<open>FileNotFoundError\<close>; or starting it fails in another way.
\<close>

datatype outcome = Exited int | NotFound | Failed string

text \<open>
  The environment: the answer of \<^verbatim>\<open>platform.system()\<close> (a string, or an exception),
  the outcome of running a command (given the argument list and the \<^verbatim>\<open>shell\<close> flag
  as the script passes them), the text \<^verbatim>\<open>str(e)\<close> of an exception, which the
  f-strings of the handlers print, and what standard output does with a line:
  \<open>print_error\<close> is \<open>None\<close> for a line that is written, and the text of the error
  that \<^verbatim>\<open>print\<close> raises for a line that is not (a \<^verbatim>\<open>UnicodeEncodeError\<close> for
  a character the stream's encoding does not have, an \<^verbatim>\<open>OSError\<close> of the stream).
\<close>

record env =
  system :: "exn + string"
  spawn :: "string list \<Rightarrow> bool \<Rightarrow> outcome"
  exn_text :: "exn \<Rightarrow> string"
  print_error :: "string \<Rightarrow> string option"

subsection \<open>State and statements\<close>

text \<open>One entry of the log of requested commands.\<close>

record run_entry =
  args :: "string list"
  shell :: bool
  result :: outcome

text \<open>
  The state: the lines this program has printed (oldest first) and the commands it has
  asked \<^verbatim>\<open>subprocess.run\<close> to run (oldest first). What a child process writes is not
  part of \<open>stdout\<close>.
\<close>

record world =
  stdout :: "string list"
  runs :: "run_entry list"

text \<open>A statement takes the state and either completes or raises, with the new state.\<close>

type_synonym 'a io = "world \<Rightarrow> (exn + 'a) \<times> world"

text \<open>
  \<^verbatim>\<open>print(line)\<close>: the line is written, or the error of writing it is raised and
  nothing of the line is written.
\<close>

definition print :: "env \<Rightarrow> string \<Rightarrow> unit io" where
  "print e line w =
     (case print_error e line of
        None \<Rightarrow> (Inr (), w\<lparr>stdout := stdout w @ [line]\<rparr>)
      | Some t \<Rightarrow> (Inl (OtherError t), w))"

text \<open>Two statements in sequence: the second one runs only if the first completes.\<close>

definition seq :: "unit io \<Rightarrow> unit io \<Rightarrow> unit io" where
  "seq first second w =
     (case first w of
        (Inl ex, w') \<Rightarrow> (Inl ex, w')
      | (Inr u, w') \<Rightarrow> second w')"

text \<open>
  \<^verbatim>\<open>try: body except C1 as e: h1 except C2 as e: h2 ...\<close>: the clauses are tried in
  order, the first whose class test holds runs, and an exception no clause matches, or
  one raised by the handler itself, goes on to the caller.
\<close>

datatype clause = Except "exn \<Rightarrow> bool" "exn \<Rightarrow> unit io"

fun except :: "clause list \<Rightarrow> exn \<Rightarrow> unit io" where
  "except [] ex w = (Inl ex, w)"
| "except (Except matches handler # clauses) ex w =
     (if matches ex then handler ex w else except clauses ex w)"

definition try_except :: "unit io \<Rightarrow> clause list \<Rightarrow> unit io" where
  "try_except body clauses w =
     (case body w of
        (Inl ex, w') \<Rightarrow> except clauses ex w'
      | (Inr u, w') \<Rightarrow> (Inr u, w'))"

text \<open>
  \<^verbatim>\<open>subprocess.run(args, shell=..., check=...)\<close>: the command is requested (and
  logged), \<^verbatim>\<open>FileNotFoundError\<close> or another error of starting it is raised as it comes,
  and with \<^verbatim>\<open>check\<close> a non-zero exit status raises \<^verbatim>\<open>CalledProcessError\<close>
  with the status and the arguments.
\<close>

definition subprocess_run :: "env \<Rightarrow> string list \<Rightarrow> bool \<Rightarrow> bool \<Rightarrow> unit io" where
  "subprocess_run e as sh check w =
     (let res = spawn e as sh;
          w' = w\<lparr>runs := runs w @ [\<lparr>args = as, shell = sh, result = res\<rparr>]\<rparr>
      in case res of
           NotFound \<Rightarrow> (Inl FileNotFoundError, w')
         | Failed t \<Rightarrow> (Inl (OtherError t), w')
         | Exited rc \<Rightarrow>
             if check \<and> rc \<noteq> 0 then (Inl (CalledProcessError rc as), w')
             else (Inr (), w'))"

text \<open>\<^verbatim>\<open>platform.system()\<close>, bound to a continuation that uses the answer.\<close>

definition platform_system :: "env \<Rightarrow> (string \<Rightarrow> unit io) \<Rightarrow> unit io" where
  "platform_system e k w =
     (case system e of
        Inl ex \<Rightarrow> (Inl ex, w)
      | Inr sys \<Rightarrow> k sys w)"

subsection \<open>announce\_completion\<close>

text \<open>
  The script text of the Windows branch: the f-string puts the message between
  \<^verbatim>\<open>$speak.Speak("\<close> and \<^verbatim>\<open>")\<close>.
\<close>

definition speak_script :: "string \<Rightarrow> string" where
  "speak_script message =
     ''Add-Type -AssemblyName System.Speech; $speak = New-Object System.Speech.Synthesis.SpeechSynthesizer; $speak.Speak(\"''
     @ message @ ''\")''"

text \<open>The body of the \<^verbatim>\<open>try\<close> statement (lines 19 to 36).\<close>

definition announce_body :: "env \<Rightarrow> string \<Rightarrow> unit io" where
  "announce_body e message =
     platform_system e (\<lambda>sys.
       if sys = ''Darwin'' then
         subprocess_run e [''say'', message] False True
       else if sys = ''Windows'' then
         subprocess_run e [''powershell'', ''-Command'', speak_script message] False True
       else if sys = ''Linux'' then
         try_except
           (subprocess_run e [''espeak'', message] False True)
           [Except isinstance_FileNotFoundError (\<lambda>ex.
              subprocess_run e [''echo'', message, ''|'', ''festival'', ''--tts''] True True)]
       else
         seq (print e (''Unsupported system: '' @ sys))
             (print e (''Message: '' @ message)))"

definition announce_completion :: "env \<Rightarrow> string \<Rightarrow> unit io" where
  "announce_completion e message =
     try_except (announce_body e message)
       [Except isinstance_CalledProcessError (\<lambda>ex.
          seq (print e (''Error running text-to-speech: '' @ exn_text e ex))
              (print e (''Message: '' @ message))),
        Except isinstance_Exception (\<lambda>ex.
          seq (print e (''Unexpected error: '' @ exn_text e ex))
              (print e (''Message: '' @ message)))]"

subsection \<open>The entry point\<close>

text \<open>\<^verbatim>\<open>sep.join(xs)\<close> of Python.\<close>

fun str_join :: "string \<Rightarrow> string list \<Rightarrow> string" where
  "str_join sep [] = []"
| "str_join sep [x] = x"
| "str_join sep (x # y # ys) = x @ sep @ str_join sep (y # ys)"

text \<open>
  The \<^verbatim>\<open>__main__\<close> block; \<open>argv\<close> is \<^verbatim>\<open>sys.argv\<close>, whose first element is the
  script's name.
\<close>

definition main :: "env \<Rightarrow> string list \<Rightarrow> unit io" where
  "main e argv =
     (if length argv > 1 then
        (let message = str_join '' '' (drop 1 argv) in announce_completion e message)
      else
        announce_completion e ''Barber Buddy development milestone completed!'')"

subsection \<open>What is executed for a request\<close>

text \<open>
  From the documentation of \<^verbatim>\<open>subprocess.Popen\<close> for POSIX, which covers every system
  where \<^verbatim>\<open>platform.system()\<close> answers \<^verbatim>\<open>Linux\<close>: without \<^verbatim>\<open>shell\<close> the
  argument list is executed as it is; with \<^verbatim>\<open>shell=True\<close> and a list, the first item
  is the command string and the further items are arguments to the shell itself, that
  is, \<^verbatim>\<open>Popen(['/bin/sh', '-c', args[0], args[1], ...])\<close>.
\<close>

definition popen_argv :: "string list \<Rightarrow> bool \<Rightarrow> string list" where
  "popen_argv as sh = (if sh then [''/bin/sh'', ''-c''] @ as else as)"

text \<open>
  \<^verbatim>\<open>sh -c command_string [command_name [argument...]]\<close>: the shell interprets the one
  operand after \<^verbatim>\<open>-c\<close>; the operands behind it only set \<^verbatim>\<open>$0\<close>, \<^verbatim>\<open>$1\<close>, ...
\<close>

fun sh_command_string :: "string list \<Rightarrow> string option" where
  "sh_command_string (sh # opt # script # params) =
     (if opt = ''-c'' then Some script else None)"
| "sh_command_string argv = None"

subsection \<open>The specification's wording of the joined message\<close>

text \<open>
  The arguments concatenated with single spaces, written without \<^verbatim>\<open>join\<close>: the first
  argument, and every further argument behind one space.
\<close>

definition spaced :: "string list \<Rightarrow> string" where
  "spaced xs =
     (case xs of
        [] \<Rightarrow> []
      | x # rest \<Rightarrow> x @ concat (map (\<lambda>y. CHR '' '' # y) rest))"

subsection \<open>Scenarios\<close>

text \<open>
  Concrete environments for the scenarios of the specification: a platform name, an
  operating system that answers by the argument list alone, a plain rendering of
  exceptions, and a standard output that takes every line. The program starts with
  nothing printed and nothing run.
\<close>

definition plain_text :: "exn \<Rightarrow> string" where
  "plain_text ex =
     (case ex of
        CalledProcessError rc cmd \<Rightarrow> ''non-zero exit status''
      | FileNotFoundError \<Rightarrow> ''No such file or directory''
      | OtherError t \<Rightarrow> t)"

definition scenario :: "string \<Rightarrow> (string list \<Rightarrow> outcome) \<Rightarrow> env" where
  "scenario sys os =
     \<lparr>system = Inr sys, spawn = (\<lambda>as sh. os as), exn_text = plain_text,
       print_error = (\<lambda>line. None)\<rparr>"

text \<open>Linux without \<^verbatim>\<open>espeak\<close>; whatever else is run exits with status \<open>rc\<close>.\<close>

definition no_espeak :: "int \<Rightarrow> env" where
  "no_espeak rc =
     scenario ''Linux'' (\<lambda>as. if take 1 as = [''espeak''] then NotFound else Exited rc)"

text \<open>
  The same environment with a standard output of strict encoding. The character
  \<open>CHR 0xFF\<close> stands for a code point the encoding does not have, such as the lone
  surrogate that an undecodable byte of the command line becomes in \<^verbatim>\<open>sys.argv\<close>;
  printing a line that holds it raises \<^verbatim>\<open>UnicodeEncodeError\<close>.
\<close>

definition strict_stdout :: "env \<Rightarrow> env" where
  "strict_stdout e =
     e\<lparr>print_error :=
         (\<lambda>line. if CHR 0xFF \<in> set line then Some ''surrogates not allowed'' else None)\<rparr>"

definition start :: world where
  "start = \<lparr>stdout = [], runs = []\<rparr>"

section \<open>Properties\<close>

subsection \<open>Basic facts about the statements\<close>

text \<open>The equations that evaluate a scenario.\<close>

lemmas scenario_eval =
  announce_completion_def announce_body_def platform_system_def try_except_def
  subprocess_run_def seq_def print_def scenario_def start_def plain_text_def

text \<open>Two prints in a row, as in both handlers and in the last branch of the body.\<close>

lemma report_simp:
  "seq (print e a) (print e b) w =
     (case print_error e a of
        Some t \<Rightarrow> (Inl (OtherError t), w)
      | None \<Rightarrow>
          (case print_error e b of
             Some t \<Rightarrow> (Inl (OtherError t), w\<lparr>stdout := stdout w @ [a]\<rparr>)
           | None \<Rightarrow> (Inr (), w\<lparr>stdout := stdout w @ [a, b]\<rparr>)))"
  by (simp add: seq_def print_def split: option.split)

lemma run_simp:
  "subprocess_run e as sh True w =
     ((case spawn e as sh of
         NotFound \<Rightarrow> Inl FileNotFoundError
       | Failed t \<Rightarrow> Inl (OtherError t)
       | Exited rc \<Rightarrow> if rc \<noteq> 0 then Inl (CalledProcessError rc as) else Inr ()),
      w\<lparr>runs := runs w @ [\<lparr>args = as, shell = sh, result = spawn e as sh\<rparr>]\<rparr>)"
  by (simp add: subprocess_run_def Let_def split: outcome.split)

text \<open>The \<^verbatim>\<open>try\<close> body, platform by platform.\<close>

lemma body_Darwin:
  "system e = Inr ''Darwin'' \<Longrightarrow>
   announce_body e m = subprocess_run e [''say'', m] False True"
  by (rule ext) (simp add: announce_body_def platform_system_def)

lemma body_Windows:
  "system e = Inr ''Windows'' \<Longrightarrow>
   announce_body e m =
     subprocess_run e [''powershell'', ''-Command'', speak_script m] False True"
  by (rule ext) (simp add: announce_body_def platform_system_def)

lemma body_Linux:
  "system e = Inr ''Linux'' \<Longrightarrow>
   announce_body e m =
     try_except (subprocess_run e [''espeak'', m] False True)
       [Except isinstance_FileNotFoundError (\<lambda>ex.
          subprocess_run e [''echo'', m, ''|'', ''festival'', ''--tts''] True True)]"
  by (rule ext) (simp add: announce_body_def platform_system_def)

lemma body_other:
  "system e = Inr sys \<Longrightarrow> sys \<noteq> ''Darwin'' \<Longrightarrow> sys \<noteq> ''Windows'' \<Longrightarrow> sys \<noteq> ''Linux'' \<Longrightarrow>
   announce_body e m =
     seq (print e (''Unsupported system: '' @ sys)) (print e (''Message: '' @ m))"
  by (rule ext) (simp add: announce_body_def platform_system_def)

lemma body_raise:
  "system e = Inl ex \<Longrightarrow> announce_body e m w = (Inl ex, w)"
  by (simp add: announce_body_def platform_system_def)

text \<open>The two handlers of the outer \<^verbatim>\<open>try\<close>, applied to what the body did.\<close>

lemma announce_after_return:
  "announce_body e m w = (Inr u, w') \<Longrightarrow> announce_completion e m w = (Inr u, w')"
  by (simp add: announce_completion_def try_except_def)

lemma announce_after_raise:
  "announce_body e m w = (Inl ex, w') \<Longrightarrow>
   announce_completion e m w =
     seq (print e ((if isinstance_CalledProcessError ex then ''Error running text-to-speech: ''
                    else ''Unexpected error: '') @ exn_text e ex))
         (print e (''Message: '' @ m)) w'"
  by (simp add: announce_completion_def try_except_def)

text \<open>
  What the body does on a recognized platform, in terms of the environment: nothing is
  printed, at least one command is requested, and the body completes or raises as the
  last requested command decides.
\<close>

lemma body_recognized:
  assumes "system e = Inr sys"
    and "sys = ''Darwin'' \<or> sys = ''Windows'' \<or> sys = ''Linux''"
    and "announce_body e m w = (rb, w1)"
  shows "\<exists>new. new \<noteq> [] \<and> w1 = w\<lparr>runs := runs w @ new\<rparr> \<and>
            rb = (case result (last new) of
                    NotFound \<Rightarrow> Inl FileNotFoundError
                  | Failed t \<Rightarrow> Inl (OtherError t)
                  | Exited rc \<Rightarrow>
                      if rc \<noteq> 0 then Inl (CalledProcessError rc (args (last new)))
                      else Inr ())"
proof -
  consider "sys = ''Darwin''" | "sys = ''Windows''" | "sys = ''Linux''"
    using assms(2) by blast
  then show ?thesis
  proof cases
    case 1
    let ?c = "[''say'', m]"
    from 1 assms have
      "w1 = w\<lparr>runs := runs w @ [\<lparr>args = ?c, shell = False, result = spawn e ?c False\<rparr>]\<rparr>"
      and "rb = (case spawn e ?c False of
                   NotFound \<Rightarrow> Inl FileNotFoundError
                 | Failed t \<Rightarrow> Inl (OtherError t)
                 | Exited rc \<Rightarrow> if rc \<noteq> 0 then Inl (CalledProcessError rc ?c) else Inr ())"
      by (simp_all add: body_Darwin run_simp)
    then show ?thesis
      by (intro exI [of _ "[\<lparr>args = ?c, shell = False, result = spawn e ?c False\<rparr>]"])
         (simp split: outcome.split)
  next
    case 2
    let ?c = "[''powershell'', ''-Command'', speak_script m]"
    from 2 assms have
      "w1 = w\<lparr>runs := runs w @ [\<lparr>args = ?c, shell = False, result = spawn e ?c False\<rparr>]\<rparr>"
      and "rb = (case spawn e ?c False of
                   NotFound \<Rightarrow> Inl FileNotFoundError
                 | Failed t \<Rightarrow> Inl (OtherError t)
                 | Exited rc \<Rightarrow> if rc \<noteq> 0 then Inl (CalledProcessError rc ?c) else Inr ())"
      by (simp_all add: body_Windows run_simp)
    then show ?thesis
      by (intro exI [of _ "[\<lparr>args = ?c, shell = False, result = spawn e ?c False\<rparr>]"])
         (simp split: outcome.split)
  next
    case 3
    let ?c = "[''espeak'', m]"
    let ?f = "[''echo'', m, ''|'', ''festival'', ''--tts'']"
    show ?thesis
    proof (cases "spawn e ?c False = NotFound")
      case True
      with 3 assms have
        "w1 = w\<lparr>runs := runs w @ [\<lparr>args = ?c, shell = False, result = NotFound\<rparr>,
                                  \<lparr>args = ?f, shell = True, result = spawn e ?f True\<rparr>]\<rparr>"
        and "rb = (case spawn e ?f True of
                     NotFound \<Rightarrow> Inl FileNotFoundError
                   | Failed t \<Rightarrow> Inl (OtherError t)
                   | Exited rc \<Rightarrow> if rc \<noteq> 0 then Inl (CalledProcessError rc ?f) else Inr ())"
        by (simp_all add: body_Linux try_except_def run_simp)
      then show ?thesis
        by (intro exI [of _ "[\<lparr>args = ?c, shell = False, result = NotFound\<rparr>,
                               \<lparr>args = ?f, shell = True, result = spawn e ?f True\<rparr>]"])
           (simp split: outcome.split)
    next
      case False
      with 3 assms have
        "w1 = w\<lparr>runs := runs w @ [\<lparr>args = ?c, shell = False, result = spawn e ?c False\<rparr>]\<rparr>"
        and "rb = (case spawn e ?c False of
                     NotFound \<Rightarrow> Inl FileNotFoundError
                   | Failed t \<Rightarrow> Inl (OtherError t)
                   | Exited rc \<Rightarrow> if rc \<noteq> 0 then Inl (CalledProcessError rc ?c) else Inr ())"
        by (auto simp add: body_Linux try_except_def run_simp split: outcome.splits if_splits)
      then show ?thesis
        by (intro exI [of _ "[\<lparr>args = ?c, shell = False, result = spawn e ?c False\<rparr>]"])
         (simp split: outcome.split)
    qed
  qed
qed

lemma str_join_spaced: "str_join '' '' xs = spaced xs"
  by (induction "'' ''" xs rule: str_join.induct) (simp_all add: spaced_def)

text \<open>
  On Linux without the primary command both requests are made, the second one through
  the shell, whose command string is the first item of the list alone.
\<close>

lemma fallback_requested:
  assumes "system e = Inr ''Linux''"
    and "spawn e [''espeak'', message] False = NotFound"
    and "announce_completion e message w = (r, w')"
  shows "runs w' = runs w @
           [\<lparr>args = [''espeak'', message], shell = False, result = NotFound\<rparr>,
            \<lparr>args = [''echo'', message, ''|'', ''festival'', ''--tts''], shell = True,
              result = spawn e [''echo'', message, ''|'', ''festival'', ''--tts''] True\<rparr>]"
  using assms
  by (auto simp add: announce_completion_def try_except_def body_Linux run_simp report_simp
      split: outcome.splits if_splits option.splits)

lemma fallback_command_string:
  "sh_command_string (popen_argv [''echo'', message, ''|'', ''festival'', ''--tts''] True) =
     Some ''echo''"
  by (simp add: popen_argv_def)

subsection \<open>Which errors reach the caller\<close>

text \<open>
  Claim C1, as amended. Let a call of \<open>announce_completion\<close> end with the result
  \<open>r\<close> and add the entries \<open>new\<close> to the log of requested commands. For every
  environment, message and state:
  \<^item> the call returns normally, or the error that reaches the caller is the one raised by
    a \<^verbatim>\<open>print\<close> of a handler (of its error line or of its \<^verbatim>\<open>Message: \<close> line);
    no error of the platform query, of running a command or of a print in the body
    reaches the caller;
  \<^item> so the call returns normally whenever standard output takes the lines of the
    handlers;
  \<^item> and when it returns normally, every failure has been reported by exactly two lines
    after what was printed before: an error of the platform query, and a last requested
    command that exited with a non-zero status (\<^verbatim>\<open>Error running text-to-speech: \<close>),
    that does not exist or that could not be started (\<^verbatim>\<open>Unexpected error: \<close>), each
    with the text of the exception and followed by \<^verbatim>\<open>Message: \<close> with the message.
\<close>

theorem errors_escape_only_from_handler_prints:
  assumes run: "announce_completion e message w = (r, w')"
    and log: "runs w' = runs w @ new"
  shows "(r = Inr () \<or>
          (\<exists>t. r = Inl (OtherError t) \<and>
             (print_error e (''Message: '' @ message) = Some t \<or>
              (\<exists>ex. print_error e (''Error running text-to-speech: '' @ exn_text e ex) = Some t \<or>
                    print_error e (''Unexpected error: '' @ exn_text e ex) = Some t)))) \<and>
         (print_error e (''Message: '' @ message) = None \<and>
          (\<forall>ex. print_error e (''Error running text-to-speech: '' @ exn_text e ex) = None \<and>
                print_error e (''Unexpected error: '' @ exn_text e ex) = None) \<longrightarrow>
          r = Inr ()) \<and>
         (r = Inr () \<longrightarrow>
            (\<forall>ex. system e = Inl ex \<longrightarrow>
               stdout w' = stdout w @
                 [(if isinstance_CalledProcessError ex then ''Error running text-to-speech: ''
                   else ''Unexpected error: '') @ exn_text e ex,
                  ''Message: '' @ message]) \<and>
            (\<forall>rc. new \<noteq> [] \<and> result (last new) = Exited rc \<and> rc \<noteq> 0 \<longrightarrow>
               stdout w' = stdout w @
                 [''Error running text-to-speech: '' @
                    exn_text e (CalledProcessError rc (args (last new))),
                  ''Message: '' @ message]) \<and>
            (new \<noteq> [] \<and> result (last new) = NotFound \<longrightarrow>
               stdout w' = stdout w @
                 [''Unexpected error: '' @ exn_text e FileNotFoundError,
                  ''Message: '' @ message]) \<and>
            (\<forall>t. new \<noteq> [] \<and> result (last new) = Failed t \<longrightarrow>
               stdout w' = stdout w @
                 [''Unexpected error: '' @ exn_text e (OtherError t),
                  ''Message: '' @ message]))"
proof -
  obtain rb w1 where body: "announce_body e message w = (rb, w1)"
    by (cases "announce_body e message w")
  have escape: "r = Inr () \<or>
          (\<exists>t. r = Inl (OtherError t) \<and>
             (print_error e (''Message: '' @ message) = Some t \<or>
              (\<exists>ex. print_error e (''Error running text-to-speech: '' @ exn_text e ex) = Some t \<or>
                    print_error e (''Unexpected error: '' @ exn_text e ex) = Some t)))"
  proof (cases rb)
    case (Inr u)
    with body run show ?thesis
      by (simp add: announce_after_return)
  next
    case (Inl ex)
    with body run show ?thesis
      by (cases "isinstance_CalledProcessError ex")
        (auto simp add: announce_after_raise report_simp split: option.splits)
  qed
  then have printable: "print_error e (''Message: '' @ message) = None \<and>
          (\<forall>ex. print_error e (''Error running text-to-speech: '' @ exn_text e ex) = None \<and>
                print_error e (''Unexpected error: '' @ exn_text e ex) = None) \<longrightarrow>
          r = Inr ()"
    by auto
  have reported: "(\<forall>ex. system e = Inl ex \<longrightarrow>
               stdout w' = stdout w @
                 [(if isinstance_CalledProcessError ex then ''Error running text-to-speech: ''
                   else ''Unexpected error: '') @ exn_text e ex,
                  ''Message: '' @ message]) \<and>
            (\<forall>rc. new \<noteq> [] \<and> result (last new) = Exited rc \<and> rc \<noteq> 0 \<longrightarrow>
               stdout w' = stdout w @
                 [''Error running text-to-speech: '' @
                    exn_text e (CalledProcessError rc (args (last new))),
                  ''Message: '' @ message]) \<and>
            (new \<noteq> [] \<and> result (last new) = NotFound \<longrightarrow>
               stdout w' = stdout w @
                 [''Unexpected error: '' @ exn_text e FileNotFoundError,
                  ''Message: '' @ message]) \<and>
            (\<forall>t. new \<noteq> [] \<and> result (last new) = Failed t \<longrightarrow>
               stdout w' = stdout w @
                 [''Unexpected error: '' @ exn_text e (OtherError t),
                  ''Message: '' @ message])"
    if ok: "r = Inr ()"
  proof (cases "system e")
    case (Inl ex)
    with run ok log show ?thesis
      by (auto simp add: body_raise announce_after_raise report_simp
          split: option.splits if_splits)
  next
    case (Inr sys)
    show ?thesis
    proof (cases "sys = ''Darwin'' \<or> sys = ''Windows'' \<or> sys = ''Linux''")
      case True
      from body_recognized [OF Inr True body] obtain new' where
        new': "new' \<noteq> []" "w1 = w\<lparr>runs := runs w @ new'\<rparr>"
          "rb = (case result (last new') of
                   NotFound \<Rightarrow> Inl FileNotFoundError
                 | Failed t \<Rightarrow> Inl (OtherError t)
                 | Exited rc \<Rightarrow>
                     if rc \<noteq> 0 then Inl (CalledProcessError rc (args (last new')))
                     else Inr ())"
        by blast
      show ?thesis
      proof (cases rb)
        case (Inr u)
        with body run new' log Inr \<open>system e = Inr sys\<close> show ?thesis
          by (auto simp add: announce_after_return split: outcome.splits if_splits)
      next
        case (Inl ex)
        with body run new' log ok \<open>system e = Inr sys\<close> show ?thesis
          by (auto simp add: announce_after_raise report_simp
              split: outcome.splits option.splits if_splits)
      qed
    next
      case False
      with Inr body have b: "(rb, w1) =
          seq (print e (''Unsupported system: '' @ sys)) (print e (''Message: '' @ message)) w"
        by (simp add: body_other)
      then have "runs w1 = runs w"
        by (auto simp add: report_simp split: option.splits)
      moreover have "runs w' = runs w1"
        using body run
        by (cases rb)
          (auto simp add: announce_after_return announce_after_raise report_simp
            split: option.splits)
      ultimately have "new = []"
        using log by simp
      with Inr show ?thesis
        by simp
    qed
  qed
  from escape printable reported show ?thesis
    by blast
qed

text \<open>
  On macOS, with a speech command that cannot be started for lack of permission and a
  standard output that takes every line, the call returns and both lines are printed.
\<close>

theorem errors_escape_only_from_handler_prints_witness:
  "announce_completion (scenario ''Darwin'' (\<lambda>as. Failed ''Permission denied'')) ''Hi'' start =
     (Inr (),
      \<lparr>stdout = [''Unexpected error: Permission denied'', ''Message: Hi''],
        runs = [\<lparr>args = [''say'', ''Hi''], shell = False,
                  result = Failed ''Permission denied''\<rparr>]\<rparr>) \<and>
   runs \<lparr>stdout = [''Unexpected error: Permission denied'', ''Message: Hi''],
         runs = [\<lparr>args = [''say'', ''Hi''], shell = False,
                   result = Failed ''Permission denied''\<rparr>]\<rparr> =
     runs start @
       [\<lparr>args = [''say'', ''Hi''], shell = False, result = Failed ''Permission denied''\<rparr>] \<and>
   [''Unexpected error: Permission denied'', ''Message: Hi''] =
     stdout start @
       [''Unexpected error: '' @
          exn_text (scenario ''Darwin'' (\<lambda>as. Failed ''Permission denied''))
            (OtherError ''Permission denied''),
        ''Message: '' @ ''Hi'']"
proof -
  let ?e = "scenario ''Darwin'' (\<lambda>as. Failed ''Permission denied'')"
  let ?new = "[\<lparr>args = [''say'', ''Hi''], shell = False, result = Failed ''Permission denied''\<rparr>]"
  let ?w' = "\<lparr>stdout = [''Unexpected error: Permission denied'', ''Message: Hi''],
              runs = ?new\<rparr>"
  have run: "announce_completion ?e ''Hi'' start = (Inr (), ?w')"
    by (simp add: scenario_eval)
  have log: "runs ?w' = runs start @ ?new"
    by (simp add: start_def)
  from errors_escape_only_from_handler_prints [OF run log] run log show ?thesis
    by simp
qed

text \<open>
  The claim as it was stated fails where a handler's own print fails. On macOS the
  speech command exits with status 1 and the message holds a character that standard
  output cannot encode: the handler prints its error line, the print of the
  \<^verbatim>\<open>Message: \<close> line raises, and that error reaches the caller.
\<close>

theorem handler_print_error_reaches_caller:
  "announce_completion (strict_stdout (scenario ''Darwin'' (\<lambda>as. Exited 1)))
     (''Hi'' @ [CHR 0xFF]) start =
     (Inl (OtherError ''surrogates not allowed''),
      \<lparr>stdout = [''Error running text-to-speech: non-zero exit status''],
        runs = [\<lparr>args = [''say'', ''Hi'' @ [CHR 0xFF]], shell = False,
                  result = Exited 1\<rparr>]\<rparr>)"
  by (simp add: scenario_eval strict_stdout_def)

subsection \<open>The Linux fallback\<close>

text \<open>
  Claim C2, evaluated where it fails. Platform \<^verbatim>\<open>Linux\<close>, \<^verbatim>\<open>espeak\<close> not installed,
  message \<^verbatim>\<open>Tests passed\<close>, every other command exiting with status 0. The function
  returns and prints nothing, and its second request is the list
  \<^verbatim>\<open>['echo', 'Tests passed', '|', 'festival', '--tts']\<close> with \<^verbatim>\<open>shell=True\<close>. What
  is executed for it is \<^verbatim>\<open>/bin/sh -c echo 'Tests passed' '|' festival --tts\<close>: the
  command string the shell interprets is \<^verbatim>\<open>echo\<close>, in which neither a pipe nor
  \<^verbatim>\<open>festival\<close> occurs; the message and the other items are only the shell's
  positional parameters. The message is not piped into the secondary speech command.
\<close>

theorem linux_fallback_runs_bare_echo:
  "announce_completion
     (no_espeak 0) ''Tests passed'' start =
     (Inr (),
      \<lparr>stdout = [],
        runs = [\<lparr>args = [''espeak'', ''Tests passed''], shell = False, result = NotFound\<rparr>,
                \<lparr>args = [''echo'', ''Tests passed'', ''|'', ''festival'', ''--tts''],
                  shell = True, result = Exited 0\<rparr>]\<rparr>) \<and>
   popen_argv [''echo'', ''Tests passed'', ''|'', ''festival'', ''--tts''] True =
     [''/bin/sh'', ''-c'', ''echo'', ''Tests passed'', ''|'', ''festival'', ''--tts''] \<and>
   sh_command_string
     (popen_argv [''echo'', ''Tests passed'', ''|'', ''festival'', ''--tts''] True) =
     Some ''echo'' \<and>
   \<not> sublist ''festival'' ''echo'' \<and> \<not> sublist ''Tests passed'' ''echo''"
  by (simp add: scenario_eval no_espeak_def popen_argv_def sublist_Cons_right)

subsection \<open>A command that exits with a non-zero status\<close>

text \<open>
  Claim C3, as amended. Let a call of \<open>announce_completion\<close> add the entries
  \<open>new\<close> to the log of requested commands, one of which exited with a non-zero
  status (the command of any platform, or the Linux fallback). Then the call returns
  normally exactly when standard output takes both lines of the handler, the line
  \<^verbatim>\<open>Error running text-to-speech: \<close> with the text of the \<^verbatim>\<open>CalledProcessError\<close>
  for that status and command, and the line \<^verbatim>\<open>Message: \<close> with the message; and
  when it returns normally, exactly these two lines have been printed, the message
  unchanged. Otherwise the error of the failing print reaches the caller.
\<close>

theorem nonzero_exit_prints_message_if_printable:
  assumes "announce_completion e message w = (r, w')"
    and "runs w' = runs w @ new"
    and "x \<in> set new" and "result x = Exited rc" and "rc \<noteq> 0"
  shows "(r = Inr ()) =
           (print_error e
              (''Error running text-to-speech: '' @
                 exn_text e (CalledProcessError rc (args x))) = None \<and>
            print_error e (''Message: '' @ message) = None) \<and>
         (r = Inr () \<longrightarrow>
            stdout w' = stdout w @
              [''Error running text-to-speech: '' @
                 exn_text e (CalledProcessError rc (args x)),
               ''Message: '' @ message]) \<and>
         (r = Inr () \<or> (\<exists>t. r = Inl (OtherError t)))"
proof (cases "system e")
  case (Inl ex)
  with assms show ?thesis
    by (auto simp add: announce_completion_def try_except_def body_raise report_simp
      split: if_splits option.splits)
next
  case (Inr sys)
  consider "sys = ''Darwin''" | "sys = ''Windows''" | "sys = ''Linux''"
    | "sys \<noteq> ''Darwin''" "sys \<noteq> ''Windows''" "sys \<noteq> ''Linux''"
    by blast
  then show ?thesis
  proof cases
    case 1
    with Inr assms show ?thesis
      by (auto simp add: announce_completion_def try_except_def body_Darwin run_simp
        report_simp split: outcome.splits if_splits option.splits)
  next
    case 2
    with Inr assms show ?thesis
      by (auto simp add: announce_completion_def try_except_def body_Windows run_simp
        report_simp split: outcome.splits if_splits option.splits)
  next
    case 3
    with Inr assms show ?thesis
      by (auto simp add: announce_completion_def try_except_def body_Linux run_simp
        report_simp split: outcome.splits if_splits option.splits)
  next
    case 4
    with Inr assms show ?thesis
      by (auto simp add: announce_completion_def try_except_def body_other report_simp
        split: if_splits option.splits)
  qed
qed

text \<open>
  On Linux without \<^verbatim>\<open>espeak\<close>, with a fallback command that exits with status 2 and a
  standard output that takes every line: the second entry of the log is the failing
  one, and the message is printed.
\<close>

theorem nonzero_exit_prints_message_if_printable_witness:
  "announce_completion (no_espeak 2) ''Tests passed'' start =
     (Inr (),
      \<lparr>stdout = [''Error running text-to-speech: non-zero exit status'',
                  ''Message: Tests passed''],
        runs = [\<lparr>args = [''espeak'', ''Tests passed''], shell = False, result = NotFound\<rparr>,
                \<lparr>args = [''echo'', ''Tests passed'', ''|'', ''festival'', ''--tts''],
                  shell = True, result = Exited 2\<rparr>]\<rparr>) \<and>
   \<lparr>args = [''echo'', ''Tests passed'', ''|'', ''festival'', ''--tts''],
     shell = True, result = Exited 2\<rparr>
     \<in> set [\<lparr>args = [''espeak'', ''Tests passed''], shell = False, result = NotFound\<rparr>,
             \<lparr>args = [''echo'', ''Tests passed'', ''|'', ''festival'', ''--tts''],
               shell = True, result = Exited 2\<rparr>] \<and>
   (2::int) \<noteq> 0 \<and>
   print_error (no_espeak 2)
     (''Error running text-to-speech: '' @
        exn_text (no_espeak 2)
          (CalledProcessError 2 [''echo'', ''Tests passed'', ''|'', ''festival'', ''--tts''])) =
     None \<and>
   print_error (no_espeak 2) (''Message: '' @ ''Tests passed'') = None \<and>
   [''Error running text-to-speech: non-zero exit status'', ''Message: Tests passed''] =
     stdout start @
       [''Error running text-to-speech: '' @
          exn_text (no_espeak 2)
            (CalledProcessError 2 [''echo'', ''Tests passed'', ''|'', ''festival'', ''--tts'']),
        ''Message: '' @ ''Tests passed'']"
proof -
  let ?x = "\<lparr>args = [''echo'', ''Tests passed'', ''|'', ''festival'', ''--tts''],
             shell = True, result = Exited 2\<rparr>"
  let ?new = "[\<lparr>args = [''espeak'', ''Tests passed''], shell = False, result = NotFound\<rparr>, ?x]"
  let ?w' = "\<lparr>stdout = [''Error running text-to-speech: non-zero exit status'',
                        ''Message: Tests passed''],
              runs = ?new\<rparr>"
  have run: "announce_completion (no_espeak 2) ''Tests passed'' start = (Inr (), ?w')"
    by (simp add: scenario_eval no_espeak_def)
  have log: "runs ?w' = runs start @ ?new"
    by (simp add: start_def)
  have mem: "?x \<in> set ?new"
    by simp
  have "(Inr () = (Inr () :: exn + unit)) =
          (print_error (no_espeak 2)
             (''Error running text-to-speech: '' @
                exn_text (no_espeak 2) (CalledProcessError 2 (args ?x))) = None \<and>
           print_error (no_espeak 2) (''Message: '' @ ''Tests passed'') = None) \<and>
        (Inr () = (Inr () :: exn + unit) \<longrightarrow>
           stdout ?w' = stdout start @
             [''Error running text-to-speech: '' @
                exn_text (no_espeak 2) (CalledProcessError 2 (args ?x)),
              ''Message: '' @ ''Tests passed''])"
    using nonzero_exit_prints_message_if_printable [OF run log mem, of 2] by simp
  with run mem show ?thesis
    by simp
qed

text \<open>
  The claim as it was stated fails where the handler's print of the message fails. On
  Linux without \<^verbatim>\<open>espeak\<close> the fallback command exits with status 2 and the message
  holds a character that standard output cannot encode: only the error line is printed,
  in which the message does not occur, and the error of the print reaches the caller.
\<close>

theorem nonzero_exit_message_not_printed:
  "announce_completion (strict_stdout (no_espeak 2)) (''Tests passed'' @ [CHR 0xFF]) start =
     (Inl (OtherError ''surrogates not allowed''),
      \<lparr>stdout = [''Error running text-to-speech: non-zero exit status''],
        runs = [\<lparr>args = [''espeak'', ''Tests passed'' @ [CHR 0xFF]], shell = False,
                  result = NotFound\<rparr>,
                \<lparr>args = [''echo'', ''Tests passed'' @ [CHR 0xFF], ''|'', ''festival'', ''--tts''],
                  shell = True, result = Exited 2\<rparr>]\<rparr>) \<and>
   \<not> sublist (''Tests passed'' @ [CHR 0xFF])
         ''Error running text-to-speech: non-zero exit status''"
  by (simp add: scenario_eval no_espeak_def strict_stdout_def sublist_Cons_right)

subsection \<open>The primary Linux command runs and fails\<close>

text \<open>
  Claim C4, as amended. On Linux, unless the primary command \<^verbatim>\<open>espeak\<close> is absent, it
  is the only command the call requests: the fallback is not invoked when
  \<^verbatim>\<open>espeak\<close> runs and fails, nor when starting it fails in another way. If
  \<^verbatim>\<open>espeak\<close> exits with a non-zero status, the call returns normally exactly when
  standard output takes the line \<^verbatim>\<open>Error running text-to-speech: \<close> (with the text
  of the error) and the line \<^verbatim>\<open>Message: \<close> with the message, and then exactly these
  two lines have been printed.
\<close>

theorem linux_fallback_only_when_absent:
  assumes "system e = Inr ''Linux''"
    and "announce_completion e message w = (r, w')"
  shows "(spawn e [''espeak'', message] False \<noteq> NotFound \<longrightarrow>
            runs w' = runs w @ [\<lparr>args = [''espeak'', message], shell = False,
                                 result = spawn e [''espeak'', message] False\<rparr>]) \<and>
         (\<forall>rc. spawn e [''espeak'', message] False = Exited rc \<and> rc \<noteq> 0 \<longrightarrow>
            (r = Inr ()) =
              (print_error e
                 (''Error running text-to-speech: '' @
                    exn_text e (CalledProcessError rc [''espeak'', message])) = None \<and>
               print_error e (''Message: '' @ message) = None) \<and>
            (r = Inr () \<longrightarrow>
               stdout w' = stdout w @
                 [''Error running text-to-speech: '' @
                    exn_text e (CalledProcessError rc [''espeak'', message]),
                  ''Message: '' @ message]))"
  using assms
  by (auto simp add: announce_completion_def try_except_def body_Linux run_simp report_simp
      split: outcome.splits if_splits option.splits)

text \<open>
  Scenario 3 of the specification: \<^verbatim>\<open>espeak\<close> is present and exits with status 1, and
  standard output takes every line.
\<close>

theorem linux_fallback_only_when_absent_witness:
  "system (scenario ''Linux'' (\<lambda>as. Exited 1)) = Inr ''Linux'' \<and>
   announce_completion (scenario ''Linux'' (\<lambda>as. Exited 1)) ''Tests passed'' start =
     (Inr (),
      \<lparr>stdout = [''Error running text-to-speech: non-zero exit status'',
                  ''Message: Tests passed''],
        runs = [\<lparr>args = [''espeak'', ''Tests passed''], shell = False,
                  result = Exited 1\<rparr>]\<rparr>)"
proof -
  let ?e = "scenario ''Linux'' (\<lambda>as. Exited 1)"
  let ?w' = "\<lparr>stdout = [''Error running text-to-speech: non-zero exit status'',
                        ''Message: Tests passed''],
              runs = [\<lparr>args = [''espeak'', ''Tests passed''], shell = False,
                        result = Exited 1\<rparr>]\<rparr>"
  have sys: "system ?e = Inr ''Linux''"
    by (simp add: scenario_def)
  have run: "announce_completion ?e ''Tests passed'' start = (Inr (), ?w')"
    by (simp add: scenario_eval)
  from linux_fallback_only_when_absent [OF sys run] sys run show ?thesis
    by simp
qed

text \<open>
  The claim as it was stated fails where the handler's print of the message fails: with
  \<^verbatim>\<open>espeak\<close> exiting with status 1 and a message that standard output cannot encode,
  the output holds the error line but not the message, and the call does not return
  normally.
\<close>

theorem linux_failure_message_not_printed:
  "announce_completion (strict_stdout (scenario ''Linux'' (\<lambda>as. Exited 1)))
     (''Tests passed'' @ [CHR 0xFF]) start =
     (Inl (OtherError ''surrogates not allowed''),
      \<lparr>stdout = [''Error running text-to-speech: non-zero exit status''],
        runs = [\<lparr>args = [''espeak'', ''Tests passed'' @ [CHR 0xFF]], shell = False,
                  result = Exited 1\<rparr>]\<rparr>)"
  by (simp add: scenario_eval strict_stdout_def)

subsection \<open>An unrecognized platform\<close>




subsection \<open>Silence on success\<close>

text \<open>
  Claim C6. On a recognized platform the call requests at least one command, and if the
  last command it requested exited with status 0 (on Linux: the primary command, or the
  fallback after an absent primary command), the call returns normally and prints
  nothing. So on a recognized platform something is written only on a failure path;
  claim C5 covers the unsupported platform. Conversely, a call that returns normally
  and has printed nothing ended with a command that exited with status 0.
\<close>

theorem silent_on_success:
  assumes "system e = Inr sys"
    and "sys = ''Darwin'' \<or> sys = ''Windows'' \<or> sys = ''Linux''"
    and "announce_completion e message w = (r, w')"
  shows "length (runs w) < length (runs w') \<and>
         (result (last (runs w')) = Exited 0 \<longrightarrow> r = Inr () \<and> stdout w' = stdout w) \<and>
         (r = Inr () \<longrightarrow>
            (stdout w' = stdout w) = (result (last (runs w')) = Exited 0))"
  using assms
  by (auto simp add: announce_completion_def try_except_def body_Darwin body_Windows body_Linux
      run_simp report_simp split: outcome.splits if_splits option.splits)

text \<open>
  Scenario 1 of the specification: on macOS the speech command exits with status 0 and
  nothing is printed.
\<close>

theorem silent_on_success_witness:
  "system (scenario ''Darwin'' (\<lambda>as. Exited 0)) = Inr ''Darwin'' \<and>
   announce_completion (scenario ''Darwin'' (\<lambda>as. Exited 0)) ''Build done'' start =
     (Inr (),
      \<lparr>stdout = [],
        runs = [\<lparr>args = [''say'', ''Build done''], shell = False, result = Exited 0\<rparr>]\<rparr>) \<and>
   result (last [\<lparr>args = [''say'', ''Build done''], shell = False, result = Exited 0\<rparr>]) =
     Exited 0 \<and>
   stdout \<lparr>stdout = [],
           runs = [\<lparr>args = [''say'', ''Build done''], shell = False, result = Exited 0\<rparr>]\<rparr> =
     stdout start"
proof -
  let ?e = "scenario ''Darwin'' (\<lambda>as. Exited 0)"
  let ?w' = "\<lparr>stdout = [],
              runs = [\<lparr>args = [''say'', ''Build done''], shell = False, result = Exited 0\<rparr>]\<rparr>"
  have sys: "system ?e = Inr ''Darwin''"
    by (simp add: scenario_def)
  have run: "announce_completion ?e ''Build done'' start = (Inr (), ?w')"
    by (simp add: scenario_eval)
  have "result (last (runs ?w')) = Exited 0 \<longrightarrow> stdout ?w' = stdout start"
    using silent_on_success [OF sys _ run] by blast
  then have "stdout ?w' = stdout start"
    by simp
  with sys run show ?thesis
    by simp
qed

subsection \<open>The message of the command line\<close>

text \<open>
  Claim C7. With one or more arguments after the script's name, the entry point calls
  \<open>announce_completion\<close> with those arguments concatenated with single spaces: the
  first argument, and every further one behind one space (\<open>spaced\<close>), which is what
  the script's \<^verbatim>\<open>" ".join(sys.argv[1:])\<close> computes.
\<close>

theorem main_joins_arguments:
  assumes "cli \<noteq> []"
  shows "main e (prog # cli) = announce_completion e (spaced cli) \<and>
         str_join '' '' (drop 1 (prog # cli)) = spaced cli"
  using assms
  by (cases cli) (simp_all add: main_def str_join_spaced)

text \<open>
  Scenario 1 of the specification: the arguments \<^verbatim>\<open>Build\<close> and \<^verbatim>\<open>done\<close> on macOS
  reach the speech command as the single argument \<^verbatim>\<open>Build done\<close>.
\<close>

theorem main_joins_arguments_witness:
  "[''Build'', ''done''] \<noteq> [] \<and>
   spaced [''Build'', ''done''] = ''Build done'' \<and>
   main (scenario ''Darwin'' (\<lambda>as. Exited 0))
     [''announce_completion.py'', ''Build'', ''done''] start =
     (Inr (),
      \<lparr>stdout = [],
        runs = [\<lparr>args = [''say'', ''Build done''], shell = False, result = Exited 0\<rparr>]\<rparr>)"
proof -
  have sp: "spaced [''Build'', ''done''] = ''Build done''"
    by (simp add: spaced_def)
  have "main (scenario ''Darwin'' (\<lambda>as. Exited 0))
          [''announce_completion.py'', ''Build'', ''done''] =
        announce_completion (scenario ''Darwin'' (\<lambda>as. Exited 0)) (spaced [''Build'', ''done''])"
    using main_joins_arguments
      [of "[''Build'', ''done'']" "scenario ''Darwin'' (\<lambda>as. Exited 0)"
        "''announce_completion.py''"]
    by simp
  then show ?thesis
    by (simp add: sp scenario_eval)
qed

text \<open>
  Claim C8. With no argument after the script's name (or with an empty \<^verbatim>\<open>sys.argv\<close>)
  the entry point calls \<open>announce_completion\<close> with the fixed default message,
  character by character.
\<close>

theorem main_default_message:
  "main e [prog] = announce_completion e ''Barber Buddy development milestone completed!'' \<and>
   main e [] = announce_completion e ''Barber Buddy development milestone completed!''"
  by (simp add: main_def)

subsection \<open>The Windows script text\<close>

text \<open>
  Claim C9. On Windows, for every message, the call requests exactly one command,
  \<^verbatim>\<open>powershell -Command\<close> with one script argument, not through a shell; and that
  script is a fixed text, the message character by character, and the closing
  \<^verbatim>\<open>")\<close>. The message is therefore a literal part of the script, whatever characters
  it contains: nothing is escaped and nothing is passed as a separate parameter.
\<close>

theorem windows_script_embeds_message:
  assumes "system e = Inr ''Windows''"
    and "announce_completion e message w = (r, w')"
  shows "\<exists>res. runs w' = runs w @
           [\<lparr>args = [''powershell'', ''-Command'',
                      ''Add-Type -AssemblyName System.Speech; $speak = New-Object System.Speech.Synthesis.SpeechSynthesizer; $speak.Speak(\"''
                      @ message @ ''\")''],
             shell = False, result = res\<rparr>]"
  using assms
  by (auto simp add: announce_completion_def try_except_def body_Windows run_simp report_simp
      speak_script_def split: outcome.splits if_splits option.splits)

text \<open>
  A message with double quotes and a semicolon arrives inside the script as it is, where
  it ends the string literal and starts a second statement.
\<close>

theorem windows_script_embeds_message_witness:
  "system (scenario ''Windows'' (\<lambda>as. Exited 0)) = Inr ''Windows'' \<and>
   announce_completion (scenario ''Windows'' (\<lambda>as. Exited 0)) ''a\"); exit 3; (\"'' start =
     (Inr (),
      \<lparr>stdout = [],
        runs = [\<lparr>args = [''powershell'', ''-Command'',
                  ''Add-Type -AssemblyName System.Speech; $speak = New-Object System.Speech.Synthesis.SpeechSynthesizer; $speak.Speak(\"a\"); exit 3; (\"\")''],
                  shell = False, result = Exited 0\<rparr>]\<rparr>)"
proof -
  let ?e = "scenario ''Windows'' (\<lambda>as. Exited 0)"
  let ?w' = "\<lparr>stdout = [],
              runs = [\<lparr>args = [''powershell'', ''-Command'',
                  ''Add-Type -AssemblyName System.Speech; $speak = New-Object System.Speech.Synthesis.SpeechSynthesizer; $speak.Speak(\"a\"); exit 3; (\"\")''],
                  shell = False, result = Exited 0\<rparr>]\<rparr>"
  have sys: "system ?e = Inr ''Windows''"
    by (simp add: scenario_def)
  have run: "announce_completion ?e ''a\"); exit 3; (\"'' start = (Inr (), ?w')"
    by (simp add: scenario_eval speak_script_def)
  from windows_script_embeds_message [OF sys run] sys run show ?thesis
    by simp
qed

subsection \<open>An absent speech executable on macOS and Windows\<close>

text \<open>
  Claim C10, as amended. On macOS and on Windows, if the platform's speech executable
  does not exist, the call requests that one command and no other (no fallback), and
  the error is caught by the generic handler: the call returns normally exactly when
  standard output takes the line \<^verbatim>\<open>Unexpected error: \<close> with the text of the
  \<^verbatim>\<open>FileNotFoundError\<close> and the line \<^verbatim>\<open>Message: \<close> with the message, and then
  exactly these two lines have been printed.
\<close>

theorem absent_executable_is_unexpected_error:
  assumes "system e = Inr sys"
    and "sys = ''Darwin'' \<and> cmd = [''say'', message] \<or>
         sys = ''Windows'' \<and> cmd = [''powershell'', ''-Command'', speak_script message]"
    and "spawn e cmd False = NotFound"
    and "announce_completion e message w = (r, w')"
  shows "runs w' = runs w @ [\<lparr>args = cmd, shell = False, result = NotFound\<rparr>] \<and>
         (r = Inr ()) =
           (print_error e (''Unexpected error: '' @ exn_text e FileNotFoundError) = None \<and>
            print_error e (''Message: '' @ message) = None) \<and>
         (r = Inr () \<longrightarrow>
            stdout w' = stdout w @
              [''Unexpected error: '' @ exn_text e FileNotFoundError,
               ''Message: '' @ message])"
  using assms
  by (auto simp add: announce_completion_def try_except_def body_Darwin body_Windows run_simp
      report_simp split: option.splits)

text \<open>macOS without the \<^verbatim>\<open>say\<close> command, with a standard output that takes every line.\<close>

theorem absent_executable_is_unexpected_error_witness:
  "system (scenario ''Darwin'' (\<lambda>as. NotFound)) = Inr ''Darwin'' \<and>
   spawn (scenario ''Darwin'' (\<lambda>as. NotFound)) [''say'', ''Build done''] False = NotFound \<and>
   announce_completion (scenario ''Darwin'' (\<lambda>as. NotFound)) ''Build done'' start =
     (Inr (),
      \<lparr>stdout = [''Unexpected error: No such file or directory'', ''Message: Build done''],
        runs = [\<lparr>args = [''say'', ''Build done''], shell = False, result = NotFound\<rparr>]\<rparr>)"
proof -
  let ?e = "scenario ''Darwin'' (\<lambda>as. NotFound)"
  let ?w' = "\<lparr>stdout = [''Unexpected error: No such file or directory'',
                        ''Message: Build done''],
              runs = [\<lparr>args = [''say'', ''Build done''], shell = False, result = NotFound\<rparr>]\<rparr>"
  have sys: "system ?e = Inr ''Darwin''"
    by (simp add: scenario_def)
  have absent: "spawn ?e [''say'', ''Build done''] False = NotFound"
    by (simp add: scenario_def)
  have run: "announce_completion ?e ''Build done'' start = (Inr (), ?w')"
    by (simp add: scenario_eval)
  from absent_executable_is_unexpected_error [OF sys _ absent run] sys absent run
  show ?thesis
    by simp
qed

text \<open>
  The claim as it was stated fails where the handler's print of the message fails: on
  macOS without the \<^verbatim>\<open>say\<close> command and with a message that standard output cannot
  encode, the line \<^verbatim>\<open>Unexpected error: \<close> is printed, the message is not, and the
  call does not return normally.
\<close>

theorem absent_executable_unprintable_message:
  "announce_completion (strict_stdout (scenario ''Darwin'' (\<lambda>as. NotFound)))
     (''Build done'' @ [CHR 0xFF]) start =
     (Inl (OtherError ''surrogates not allowed''),
      \<lparr>stdout = [''Unexpected error: No such file or directory''],
        runs = [\<lparr>args = [''say'', ''Build done'' @ [CHR 0xFF]], shell = False,
                  result = NotFound\<rparr>]\<rparr>)"
  by (simp add: scenario_eval strict_stdout_def)

end
